theory Spec2Isabelle
  imports Complex_Main "HOL-Library.AList"
begin

section \<open>Values held in documents and request bodies\<close>

text \<open>
  The adaptive question engine of \<^verbatim>\<open>app/qna/utils.py\<close> works on Python dictionaries
  that are MongoDB documents. A field holds \<^verbatim>\<open>None\<close>, a boolean, an integer, a string,
  an \<^verbatim>\<open>ObjectId\<close>, a list of such scalars or a dictionary from strings to such scalars.
  Strings are lists of code points below 256; an \<^verbatim>\<open>ObjectId\<close> is kept as the 24
  lower-case hexadecimal digits that \<^verbatim>\<open>str\<close> prints for it. Floating-point field values
  occur only as the mastery levels of a progress document, which are modelled apart
  (see the section on the progress updater).
\<close>

datatype scalar = SNone | SBool bool | SInt int | SStr string | SOid string

datatype pyval = PS scalar | PList "scalar list" | PDict "(string \<times> scalar) list"

type_synonym doc = "(string \<times> pyval) list"

datatype error =
  InvalidId | KeyError | TypeError | AttributeError | ValueError
  | OperationFailure | InvalidDocument

text \<open>\<^verbatim>\<open>d.get(k, default)\<close> on a dictionary.\<close>

definition dict_get :: "(string \<times> 'v) list \<Rightarrow> string \<Rightarrow> 'v \<Rightarrow> 'v" where
  "dict_get d k dflt = (case map_of d k of None \<Rightarrow> dflt | Some v \<Rightarrow> v)"

subsection \<open>\<^verbatim>\<open>str\<close>, \<^verbatim>\<open>repr\<close>, \<^verbatim>\<open>lower\<close>, \<^verbatim>\<open>strip\<close> and \<^verbatim>\<open>==\<close>\<close>

definition digit_char :: "nat \<Rightarrow> char" where
  "digit_char d = ''0123456789abcdef'' ! d"

fun show_nat :: "nat \<Rightarrow> string" where
  "show_nat n = (if n < 10 then [digit_char n] else show_nat (n div 10) @ [digit_char (n mod 10)])"

declare show_nat.simps [simp del]

definition show_int :: "int \<Rightarrow> string" where
  "show_int i = (if i < 0 then CHR ''-'' # show_nat (nat (- i)) else show_nat (nat i))"

definition printable :: "char \<Rightarrow> bool" where
  "printable c = (let n = (of_char c :: nat) in (32 \<le> n \<and> n < 127) \<or> (160 < n \<and> n \<noteq> 173))"

definition escape_char :: "char \<Rightarrow> char \<Rightarrow> string" where
  "escape_char quote c =
     (if c = quote \<or> c = CHR 0x5C then [CHR 0x5C, c]
      else if c = CHR 0x09 then [CHR 0x5C, CHR ''t'']
      else if c = CHR 0x0A then [CHR 0x5C, CHR ''n'']
      else if c = CHR 0x0D then [CHR 0x5C, CHR ''r'']
      else if printable c then [c]
      else [CHR 0x5C, CHR ''x'', digit_char (of_char c div 16), digit_char (of_char c mod 16)])"

definition repr_str :: "string \<Rightarrow> string" where
  "repr_str s =
     (let quote = (if CHR 0x27 \<in> set s \<and> CHR 0x22 \<notin> set s then CHR 0x22 else CHR 0x27)
      in quote # concat (map (escape_char quote) s) @ [quote])"

fun str_scalar :: "scalar \<Rightarrow> string" where
  "str_scalar SNone = ''None''"
| "str_scalar (SBool b) = (if b then ''True'' else ''False'')"
| "str_scalar (SInt i) = show_int i"
| "str_scalar (SStr s) = s"
| "str_scalar (SOid h) = h"

fun repr_scalar :: "scalar \<Rightarrow> string" where
  "repr_scalar (SStr s) = repr_str s"
| "repr_scalar (SOid h) = ''ObjectId('' @ repr_str h @ '')''"
| "repr_scalar x = str_scalar x"

fun join :: "string \<Rightarrow> string list \<Rightarrow> string" where
  "join sep [] = []"
| "join sep [x] = x"
| "join sep (x # y # ys) = x @ sep @ join sep (y # ys)"

fun py_str :: "pyval \<Rightarrow> string" where
  "py_str (PS x) = str_scalar x"
| "py_str (PList xs) = ''['' @ join '', '' (map repr_scalar xs) @ '']''"
| "py_str (PDict kvs) =
     ''{'' @ join '', '' (map (\<lambda>(k, v). repr_str k @ '': '' @ repr_scalar v) kvs) @ ''}''"

definition lower_char :: "char \<Rightarrow> char" where
  "lower_char c =
     (let n = (of_char c :: nat)
      in if (65 \<le> n \<and> n \<le> 90) \<or> (192 \<le> n \<and> n \<le> 222 \<and> n \<noteq> 215) then char_of (n + 32) else c)"

definition lower :: "string \<Rightarrow> string" where
  "lower s = map lower_char s"

definition is_space :: "char \<Rightarrow> bool" where
  "is_space c =
     (let n = (of_char c :: nat)
      in (9 \<le> n \<and> n \<le> 13) \<or> (28 \<le> n \<and> n \<le> 32) \<or> n = 133 \<or> n = 160)"

definition strip :: "string \<Rightarrow> string" where
  "strip s = rev (dropWhile is_space (rev (dropWhile is_space s)))"

text \<open>
  Python's \<^verbatim>\<open>==\<close>: a boolean equals the integer 0 or 1, lists are compared element by
  element and dictionaries as sets of items.
\<close>

fun norm_scalar :: "scalar \<Rightarrow> scalar" where
  "norm_scalar (SBool b) = SInt (if b then 1 else 0)"
| "norm_scalar x = x"

definition scalar_eq :: "scalar \<Rightarrow> scalar \<Rightarrow> bool" where
  "scalar_eq a b = (norm_scalar a = norm_scalar b)"

fun py_eq :: "pyval \<Rightarrow> pyval \<Rightarrow> bool" where
  "py_eq (PS a) (PS b) = scalar_eq a b"
| "py_eq (PList xs) (PList ys) = (map norm_scalar xs = map norm_scalar ys)"
| "py_eq (PDict a) (PDict b) =
     (length a = length b \<and>
      list_all (\<lambda>(k, v). map_option norm_scalar (map_of b k) = Some (norm_scalar v)) a)"
| "py_eq _ _ = False"

subsection \<open>\<^verbatim>\<open>bson.ObjectId\<close>\<close>

definition is_hex :: "char \<Rightarrow> bool" where
  "is_hex c =
     (let n = (of_char c :: nat)
      in (48 \<le> n \<and> n \<le> 57) \<or> (65 \<le> n \<and> n \<le> 70) \<or> (97 \<le> n \<and> n \<le> 102))"

text \<open>
  \<^verbatim>\<open>bytes.fromhex\<close>, printed back as lower-case digits: ASCII white space (tab, line
  feed, vertical tab, form feed, carriage return, space) is skipped before each pair of
  digits, and any other character that is not a digit is refused.
\<close>

definition is_ascii_space :: "char \<Rightarrow> bool" where
  "is_ascii_space c = (let n = (of_char c :: nat) in (9 \<le> n \<and> n \<le> 13) \<or> n = 32)"

fun fromhex :: "string \<Rightarrow> string option" where
  "fromhex [] = Some []"
| "fromhex [c] = (if is_ascii_space c then Some [] else None)"
| "fromhex (c # d # cs) =
     (if is_ascii_space c then fromhex (d # cs)
      else if is_hex c \<and> is_hex d
        then map_option (\<lambda>r. lower_char c # lower_char d # r) (fromhex cs)
      else None)"

text \<open>\<^verbatim>\<open>ObjectId(s)\<close> for a string: 24 characters that \<^verbatim>\<open>bytes.fromhex\<close> accepts.\<close>

definition ObjectId :: "string \<Rightarrow> error + string" where
  "ObjectId s =
     (if length s = 24 then (case fromhex s of None \<Rightarrow> Inl InvalidId | Some h \<Rightarrow> Inr h)
      else Inl InvalidId)"

text \<open>A list comprehension \<^verbatim>\<open>[ObjectId(q_id) for q_id in ids]\<close>: the first failure raises.\<close>

fun object_ids :: "string list \<Rightarrow> error + string list" where
  "object_ids [] = Inr []"
| "object_ids (s # ss) =
     (case ObjectId s of
        Inl e \<Rightarrow> Inl e
      | Inr h \<Rightarrow> (case object_ids ss of Inl e \<Rightarrow> Inl e | Inr hs \<Rightarrow> Inr (h # hs)))"

section \<open>The document store\<close>

text \<open>
  The queries the code sends are dictionaries from a field name to either a value
  (equality) or a dictionary of operators. Comparison follows BSON: values are compared
  inside their own type only, strings by their code points from left to right, and a
  field that holds an array matches when the array or one of its elements does.
\<close>

datatype op = Gt pyval | Lte pyval | Ne pyval | Nin "pyval list" | In pyval

datatype cond = Is pyval | Ops "op list"

type_synonym query = "(string \<times> cond) list"

fun str_less :: "string \<Rightarrow> string \<Rightarrow> bool" where
  "str_less [] [] = False"
| "str_less [] (y # ys) = True"
| "str_less (x # xs) [] = False"
| "str_less (x # xs) (y # ys) =
     ((of_char x :: nat) < of_char y \<or> (x = y \<and> str_less xs ys))"

text \<open>The BSON order of types: null, numbers, strings, objects, arrays, ObjectId, booleans.\<close>

fun scalar_rank :: "scalar \<Rightarrow> nat" where
  "scalar_rank SNone = 0"
| "scalar_rank (SInt i) = 1"
| "scalar_rank (SStr s) = 2"
| "scalar_rank (SOid h) = 5"
| "scalar_rank (SBool b) = 6"

fun rank :: "pyval \<Rightarrow> nat" where
  "rank (PS x) = scalar_rank x"
| "rank (PDict kvs) = 3"
| "rank (PList xs) = 4"

fun scalar_less :: "scalar \<Rightarrow> scalar \<Rightarrow> bool" where
  "scalar_less (SInt a) (SInt b) = (a < b)"
| "scalar_less (SStr a) (SStr b) = str_less a b"
| "scalar_less (SOid a) (SOid b) = str_less a b"
| "scalar_less (SBool a) (SBool b) = (\<not> a \<and> b)"
| "scalar_less a b = (scalar_rank a < scalar_rank b)"

fun list_less :: "scalar list \<Rightarrow> scalar list \<Rightarrow> bool" where
  "list_less [] [] = False"
| "list_less [] (y # ys) = True"
| "list_less (x # xs) [] = False"
| "list_less (x # xs) (y # ys) = (scalar_less x y \<or> (x = y \<and> list_less xs ys))"

definition entry_less :: "string \<times> scalar \<Rightarrow> string \<times> scalar \<Rightarrow> bool" where
  "entry_less a b =
     (scalar_rank (snd a) < scalar_rank (snd b) \<or>
      (scalar_rank (snd a) = scalar_rank (snd b) \<and>
       (str_less (fst a) (fst b) \<or> (fst a = fst b \<and> scalar_less (snd a) (snd b)))))"

fun dict_less :: "(string \<times> scalar) list \<Rightarrow> (string \<times> scalar) list \<Rightarrow> bool" where
  "dict_less [] [] = False"
| "dict_less [] (y # ys) = True"
| "dict_less (x # xs) [] = False"
| "dict_less (x # xs) (y # ys) = (entry_less x y \<or> (x = y \<and> dict_less xs ys))"

fun bson_less :: "pyval \<Rightarrow> pyval \<Rightarrow> bool" where
  "bson_less (PS a) (PS b) = scalar_less a b"
| "bson_less (PList a) (PList b) = list_less a b"
| "bson_less (PDict a) (PDict b) = dict_less a b"
| "bson_less a b = (rank a < rank b)"

text \<open>One value of a field against one operator, and the field as a whole.\<close>

definition value_eq :: "pyval \<Rightarrow> pyval \<Rightarrow> bool" where
  "value_eq x v = (x = v)"

definition value_gt :: "pyval \<Rightarrow> pyval \<Rightarrow> bool" where
  "value_gt x v = (rank x = rank v \<and> bson_less v x)"

definition value_lte :: "pyval \<Rightarrow> pyval \<Rightarrow> bool" where
  "value_lte x v = (rank x = rank v \<and> \<not> bson_less v x)"

definition field_any :: "(pyval \<Rightarrow> bool) \<Rightarrow> pyval option \<Rightarrow> bool \<Rightarrow> bool" where
  "field_any P fv missing =
     (case fv of
        None \<Rightarrow> missing
      | Some (PList xs) \<Rightarrow> P (PList xs) \<or> list_ex (\<lambda>x. P (PS x)) xs
      | Some x \<Rightarrow> P x)"

definition field_eq :: "pyval option \<Rightarrow> pyval \<Rightarrow> bool" where
  "field_eq fv v = field_any (\<lambda>x. value_eq x v) fv (v = PS SNone)"

fun op_ok :: "op \<Rightarrow> bool" where
  "op_ok (In (PList vs)) = True"
| "op_ok (In v) = False"
| "op_ok x = True"

fun matches_op :: "pyval option \<Rightarrow> op \<Rightarrow> bool" where
  "matches_op fv (Gt v) = field_any (\<lambda>x. value_gt x v) fv False"
| "matches_op fv (Lte v) = field_any (\<lambda>x. value_lte x v) fv (v = PS SNone)"
| "matches_op fv (Ne v) = (\<not> field_eq fv v)"
| "matches_op fv (Nin vs) = (\<not> list_ex (field_eq fv) vs)"
| "matches_op fv (In (PList vs)) = list_ex (\<lambda>v. field_eq fv (PS v)) vs"
| "matches_op fv (In v) = False"

fun matches_cond :: "pyval option \<Rightarrow> cond \<Rightarrow> bool" where
  "matches_cond fv (Is v) = field_eq fv v"
| "matches_cond fv (Ops os) = list_all (matches_op fv) os"

definition matches :: "query \<Rightarrow> doc \<Rightarrow> bool" where
  "matches q d = list_all (\<lambda>(k, c). matches_cond (map_of d k) c) q"

fun cond_ok :: "cond \<Rightarrow> bool" where
  "cond_ok (Is v) = True"
| "cond_ok (Ops os) = list_all op_ok os"

definition query_ok :: "query \<Rightarrow> bool" where
  "query_ok q = list_all (\<lambda>(k, c). cond_ok c) q"

text \<open>
  \<^verbatim>\<open>find(query)\<close> yields the matching documents in the order the collection holds them;
  the server refuses \<^verbatim>\<open>$in\<close> with an operand that is not an array.
\<close>

definition coll_find :: "doc list \<Rightarrow> query \<Rightarrow> error + doc list" where
  "coll_find coll q = (if query_ok q then Inr (filter (matches q) coll) else Inl OperationFailure)"

definition coll_find_one :: "doc list \<Rightarrow> query \<Rightarrow> error + doc option" where
  "coll_find_one coll q =
     (case coll_find coll q of
        Inl e \<Rightarrow> Inl e
      | Inr [] \<Rightarrow> Inr None
      | Inr (d # ds) \<Rightarrow> Inr (Some d))"

text \<open>
  \<^verbatim>\<open>sort([("priority", 1)])\<close>: ascending by the field, a missing field counting as null,
  an array by its least element and an empty array before everything else; documents
  with equal keys keep their order.
\<close>

fun least :: "scalar \<Rightarrow> scalar list \<Rightarrow> scalar" where
  "least m [] = m"
| "least m (x # xs) = least (if scalar_less x m then x else m) xs"

definition priority_key :: "string \<Rightarrow> doc \<Rightarrow> pyval option" where
  "priority_key k d =
     (case map_of d k of
        None \<Rightarrow> Some (PS SNone)
      | Some (PList []) \<Rightarrow> None
      | Some (PList (x # xs)) \<Rightarrow> Some (PS (least x xs))
      | Some v \<Rightarrow> Some v)"

fun key_le :: "pyval option \<Rightarrow> pyval option \<Rightarrow> bool" where
  "key_le None b = True"
| "key_le (Some a) None = False"
| "key_le (Some a) (Some b) = (\<not> bson_less b a)"

fun insert_sorted :: "string \<Rightarrow> doc \<Rightarrow> doc list \<Rightarrow> doc list" where
  "insert_sorted k d [] = [d]"
| "insert_sorted k d (e # es) =
     (if key_le (priority_key k d) (priority_key k e) then d # e # es else e # insert_sorted k d es)"

definition coll_sort :: "string \<Rightarrow> doc list \<Rightarrow> doc list" where
  "coll_sort k ds = foldr (insert_sorted k) ds []"

text \<open>
  \<^verbatim>\<open>.limit(n)\<close> followed by \<^verbatim>\<open>to_list(length=n)\<close>, for the positive \<^verbatim>\<open>n\<close> the code
  passes.
\<close>

definition coll_limit :: "nat \<Rightarrow> doc list \<Rightarrow> doc list" where
  "coll_limit n ds = take n ds"

text \<open>
  The three collections. A progress document is created by the code with all its keys,
  so it is a record; \<^verbatim>\<open>user_id\<close> holds the user's \<^verbatim>\<open>ObjectId\<close>. Time stamps are
  readings of the clock, passed in as \<open>now\<close>.
\<close>

record skill_stat =
  mastery_level :: rat
  attempts :: int
  correct :: int

record progress =
  user_id :: string
  completed_questions :: "string list"
  attempted_questions :: "string list"
  correct_answers :: int
  total_attempts :: int
  skills :: "(string \<times> skill_stat) list"
  created_at :: nat
  updated_at :: nat

record answer_record =
  answer_user_id :: string
  answer_question_id :: string
  answer_user_answer :: pyval
  answer_is_correct :: bool
  answer_time_taken :: rat
  answer_score :: pyval
  answer_timestamp :: nat

record db =
  db_questions :: "doc list"
  db_user_answers :: "answer_record list"
  db_user_progress :: "progress list"

definition find_progress :: "progress list \<Rightarrow> string \<Rightarrow> progress option" where
  "find_progress ps uid = List.find (\<lambda>p. user_id p = uid) ps"

text \<open>
  \<^verbatim>\<open>update_one({"user_id": uid}, {"$set": progress}, upsert=True)\<close>: the first document
  of the user takes every field of \<open>progress\<close>; without one, \<open>progress\<close> is inserted.
\<close>

fun upsert_progress :: "progress list \<Rightarrow> string \<Rightarrow> progress \<Rightarrow> progress list" where
  "upsert_progress [] uid p = [p]"
| "upsert_progress (x # xs) uid p =
     (if user_id x = uid then p # xs else x # upsert_progress xs uid p)"

definition new_progress :: "string \<Rightarrow> nat \<Rightarrow> progress" where
  "new_progress uid now =
     \<lparr>user_id = uid, completed_questions = [], attempted_questions = [],
      correct_answers = 0, total_attempts = 0, skills = [],
      created_at = now, updated_at = now\<rparr>"

section \<open>Question lookup and the question selector\<close>

definition by_id :: "string \<Rightarrow> query" where
  "by_id h = [(''_id'', Is (PS (SOid h)))]"

text \<open>\<^verbatim>\<open>get_question_by_id\<close>: every exception is caught and answered by \<^verbatim>\<open>None\<close>.\<close>

definition get_question_by_id :: "db \<Rightarrow> string \<Rightarrow> doc option" where
  "get_question_by_id d question_id =
     (case ObjectId question_id of
        Inl e \<Rightarrow> None
      | Inr object_id \<Rightarrow>
          (case coll_find_one (db_questions d) (by_id object_id) of
             Inl e \<Rightarrow> None
           | Inr question \<Rightarrow> question))"

text \<open>A Python condition on an optional string: \<^verbatim>\<open>None\<close> and the empty string are false.\<close>

fun truthy :: "string option \<Rightarrow> bool" where
  "truthy None = False"
| "truthy (Some s) = (s \<noteq> [])"

definition str_filter :: "string \<Rightarrow> string option \<Rightarrow> query" where
  "str_filter k v = (if truthy v then [(k, Is (PS (SStr (the v))))] else [])"

text \<open>
  \<^verbatim>\<open>sorted(user_progress["skills"].items(), key=...)[0][0]\<close>: the first skill, in the
  order of the dictionary, among those of least mastery level.
\<close>

definition weakest_skill :: "progress \<Rightarrow> string option" where
  "weakest_skill p =
     (case sort_key (\<lambda>x. mastery_level (snd x)) (skills p) of
        [] \<Rightarrow> None
      | x # xs \<Rightarrow> Some (fst x))"

definition oid_values :: "string list \<Rightarrow> pyval list" where
  "oid_values hs = map (\<lambda>h. PS (SOid h)) hs"

text \<open>The keys of the first query, in the order the code adds them.\<close>

definition first_query ::
  "string option \<Rightarrow> string option \<Rightarrow> string option \<Rightarrow> progress option \<Rightarrow> error + query" where
  "first_query difficulty subject topic user_progress =
     (case (case user_progress of
              None \<Rightarrow> Inr []
            | Some p \<Rightarrow>
                (case object_ids (completed_questions p) of
                   Inl e \<Rightarrow> Inl e
                 | Inr hs \<Rightarrow> Inr [(''_id'', Ops [Nin (oid_values hs)])])) of
        Inl e \<Rightarrow> Inl e
      | Inr excluded \<Rightarrow>
          Inr (str_filter ''difficulty'' difficulty @ str_filter ''subject'' subject
               @ str_filter ''topic'' topic @ excluded
               @ (case user_progress of
                    None \<Rightarrow> []
                  | Some p \<Rightarrow>
                      (case weakest_skill p of
                         None \<Rightarrow> []
                       | Some s \<Rightarrow> [(''skills'', Is (PS (SStr s)))]))))"

text \<open>\<^verbatim>\<open>[q["_id"] for q in questions]\<close>.\<close>

fun existing_ids :: "doc list \<Rightarrow> error + pyval list" where
  "existing_ids [] = Inr []"
| "existing_ids (q # qs) =
     (case map_of q ''_id'' of
        None \<Rightarrow> Inl KeyError
      | Some v \<Rightarrow> (case existing_ids qs of Inl e \<Rightarrow> Inl e | Inr vs \<Rightarrow> Inr (v # vs)))"

definition second_stage :: "db \<Rightarrow> nat \<Rightarrow> query \<Rightarrow> doc list \<Rightarrow> error + doc list" where
  "second_stage d count query questions1 =
     (if length questions1 < count \<and> map_of query ''topic'' \<noteq> None then
        (case coll_find (db_questions d) (AList.delete ''topic'' query) of
           Inl e \<Rightarrow> Inl e
         | Inr found \<Rightarrow>
             Inr (questions1
                  @ coll_limit (count - length questions1) (coll_sort ''priority'' found)))
      else Inr questions1)"

definition third_stage ::
  "db \<Rightarrow> nat \<Rightarrow> progress option \<Rightarrow> doc list \<Rightarrow> error + doc list" where
  "third_stage d count user_progress questions2 =
     (if length questions2 < count then
        (case existing_ids questions2 of
           Inl e \<Rightarrow> Inl e
         | Inr ids \<Rightarrow>
             (case (case user_progress of
                      None \<Rightarrow> Inr []
                    | Some p \<Rightarrow> object_ids (completed_questions p)) of
                Inl e \<Rightarrow> Inl e
              | Inr hs \<Rightarrow>
                  (case coll_find (db_questions d) [(''_id'', Ops [Nin (ids @ oid_values hs)])] of
                     Inl e \<Rightarrow> Inl e
                   | Inr found \<Rightarrow>
                       Inr (questions2 @ coll_limit (count - length questions2) found))))
      else Inr questions2)"

definition get_next_questions ::
  "db \<Rightarrow> nat \<Rightarrow> string option \<Rightarrow> string option \<Rightarrow> string option \<Rightarrow> progress option
     \<Rightarrow> error + doc list" where
  "get_next_questions d count difficulty subject topic user_progress =
     (case first_query difficulty subject topic user_progress of
        Inl e \<Rightarrow> Inl e
      | Inr query \<Rightarrow>
          (case coll_find (db_questions d) query of
             Inl e \<Rightarrow> Inl e
           | Inr found \<Rightarrow>
               (case second_stage d count query (coll_limit count (coll_sort ''priority'' found)) of
                  Inl e \<Rightarrow> Inl e
                | Inr questions2 \<Rightarrow> third_stage d count user_progress questions2)))"

section \<open>The answer evaluator\<close>

record eval_result =
  is_correct :: bool
  feedback :: pyval
  score :: pyval

definition str_val :: "string \<Rightarrow> pyval" where
  "str_val s = PS (SStr s)"

text \<open>
  The part of \<^verbatim>\<open>save_user_answer\<close> that decides correctness, feedback and score.
  \<^verbatim>\<open>.get\<close> on something that is not a dictionary and \<^verbatim>\<open>.lower\<close> on something that
  is not a string raise \<^verbatim>\<open>AttributeError\<close>.
\<close>

definition evaluate_answer :: "doc \<Rightarrow> pyval \<Rightarrow> error + eval_result" where
  "evaluate_answer question user_answer =
     (let question_type = dict_get question ''type'' (str_val ''multiple_choice'') in
      if py_eq question_type (str_val ''multiple_choice'') then
        (if py_eq user_answer (dict_get question ''correct_answer'' (PS SNone)) then
           Inr \<lparr>is_correct = True, feedback = str_val ''Correct!'',
                score = dict_get question ''points'' (PS (SInt 10))\<rparr>
         else
           (case dict_get question ''explanations'' (PDict []) of
              PDict explanations \<Rightarrow>
                Inr \<lparr>is_correct = False,
                     feedback = PS (dict_get explanations (py_str user_answer)
                                      (SStr ''Incorrect choice.'')),
                     score = PS (SInt 0)\<rparr>
            | _ \<Rightarrow> Inl AttributeError))
      else if py_eq question_type (str_val ''text'') then
        (case dict_get question ''correct_answer'' (str_val []) of
           PS (SStr answer) \<Rightarrow>
             (if strip (lower (py_str user_answer)) = strip (lower answer) then
                Inr \<lparr>is_correct = True, feedback = str_val ''Correct!'',
                     score = dict_get question ''points'' (PS (SInt 10))\<rparr>
              else
                Inr \<lparr>is_correct = False,
                     feedback = dict_get question ''explanation'' (str_val ''Incorrect answer.''),
                     score = PS (SInt 0)\<rparr>)
         | _ \<Rightarrow> Inl AttributeError)
      else
        Inr \<lparr>is_correct = False, feedback = str_val ''Incorrect answer.'',
             score = PS (SInt 0)\<rparr>)"

section \<open>The progress updater\<close>

text \<open>
  Mastery levels are Python floats. A float is a rational number, and each floating-point
  operation returns the rounding of the exact result; the rounding function \<open>rnd\<close> is a
  parameter of the model (the identity gives exact arithmetic). The quotient of two
  integers, the product with the integer 100 and the literal \<^verbatim>\<open>0.9\<close> are rounded in the
  same way.
\<close>

definition new_mastery :: "(rat \<Rightarrow> rat) \<Rightarrow> rat \<Rightarrow> int \<Rightarrow> int \<Rightarrow> rat" where
  "new_mastery rnd old_mastery c a =
     (let mastery = rnd (rnd (of_int c / of_int a) * 100);
          decay_factor = rnd (9 / 10)
      in rnd (rnd (old_mastery * decay_factor) + rnd (mastery * rnd (1 - decay_factor))))"

text \<open>
  The rounding of CPython's floats: binary64, to the nearest float and to the even
  mantissa on a tie, with 53 bits of mantissa above the exponent \<open>-1074\<close> of the
  subnormal numbers. A result of magnitude \<open>2 ^ 1024\<close> or more is infinite in Python and has
  no value here. \<open>bits n\<close> is the number of binary digits of a positive integer.
\<close>

function bits :: "int \<Rightarrow> int" where
  "bits n = (if n \<le> 0 then 0 else 1 + bits (n div 2))"
  by pat_completeness auto
termination
  by (relation "measure nat") auto

declare bits.simps [simp del]

definition pow2 :: "int \<Rightarrow> rat" where
  "pow2 e = (if 0 \<le> e then 2 ^ nat e else 1 / 2 ^ nat (- e))"

text \<open>The exponent \<open>e\<close> of a positive number \<open>x\<close>: \<open>2 ^ e \<le> x < 2 ^ (e + 1)\<close>.\<close>

definition exponent :: "rat \<Rightarrow> int" where
  "exponent x =
     (let (p, q) = quotient_of x;
          k = bits p - bits q
      in if pow2 k \<le> x then k else k - 1)"

definition round_even :: "rat \<Rightarrow> int" where
  "round_even x =
     (let f = \<lfloor>x\<rfloor>; r = x - of_int f
      in if r < 1 / 2 then f else if 1 / 2 < r then f + 1 else if even f then f else f + 1)"

definition binary64 :: "rat \<Rightarrow> rat" where
  "binary64 x =
     (if x = 0 then 0
      else (let e = max (exponent \<bar>x\<bar> - 52) (- 1074)
            in sgn x * of_int (round_even (\<bar>x\<bar> / pow2 e)) * pow2 e))"

text \<open>The entry of a skill, created with zeros when the skill is not tracked yet.\<close>

definition skill_entry :: "(string \<times> skill_stat) list \<Rightarrow> string \<Rightarrow> skill_stat" where
  "skill_entry sk skill =
     (case map_of sk skill of
        None \<Rightarrow> \<lparr>mastery_level = 0, attempts = 0, correct = 0\<rparr>
      | Some st \<Rightarrow> st)"

definition update_skill ::
  "(rat \<Rightarrow> rat) \<Rightarrow> bool \<Rightarrow> string \<Rightarrow> (string \<times> skill_stat) list
     \<Rightarrow> (string \<times> skill_stat) list" where
  "update_skill rnd ok skill sk =
     (let st = skill_entry sk skill;
          a = attempts st + 1;
          c = (if ok then correct st + 1 else correct st)
      in AList.update skill
           \<lparr>mastery_level = (if a > 0 then new_mastery rnd (mastery_level st) c a
                              else mastery_level st),
            attempts = a, correct = c\<rparr> sk)"

text \<open>
  \<^verbatim>\<open>for skill in skills\<close>: a list gives its elements, a dictionary its keys, a string its
  characters; anything else is not iterable.
\<close>

fun py_iter :: "pyval \<Rightarrow> error + scalar list" where
  "py_iter (PList xs) = Inr xs"
| "py_iter (PDict kvs) = Inr (map (\<lambda>kv. SStr (fst kv)) kvs)"
| "py_iter (PS (SStr s)) = Inr (map (\<lambda>c. SStr [c]) s)"
| "py_iter (PS x) = Inl TypeError"

text \<open>
  The skills become keys of the stored document: the driver refuses a key that is not
  a string or that holds a null character, when the document is written.
\<close>

fun skill_keys :: "scalar list \<Rightarrow> string list option" where
  "skill_keys [] = Some []"
| "skill_keys (SStr s # xs) =
     (if CHR 0x00 \<in> set s then None else map_option ((#) s) (skill_keys xs))"
| "skill_keys (x # xs) = None"

text \<open>The progress document of the user, or a fresh one when the user has none.\<close>

definition load_progress :: "nat \<Rightarrow> db \<Rightarrow> string \<Rightarrow> progress" where
  "load_progress now d user_object_id =
     (case find_progress (db_user_progress d) user_object_id of
        None \<Rightarrow> new_progress user_object_id now
      | Some p \<Rightarrow> p)"

definition update_user_progress ::
  "(rat \<Rightarrow> rat) \<Rightarrow> nat \<Rightarrow> db \<Rightarrow> string \<Rightarrow> string \<Rightarrow> doc \<Rightarrow> bool \<Rightarrow> error + db" where
  "update_user_progress rnd now d uid question_id question ok =
     (case ObjectId uid of
        Inl e \<Rightarrow> Inl e
      | Inr user_object_id \<Rightarrow>
          (let p0 = load_progress now d user_object_id;
               p1 = p0\<lparr>total_attempts := total_attempts p0 + 1\<rparr>;
               p2 = (if question_id \<notin> set (attempted_questions p1)
                     then p1\<lparr>attempted_questions := attempted_questions p1 @ [question_id]\<rparr>
                     else p1);
               p3 = (if ok then
                       (let p = p2\<lparr>correct_answers := correct_answers p2 + 1\<rparr>
                        in if question_id \<notin> set (completed_questions p)
                           then p\<lparr>completed_questions := completed_questions p @ [question_id]\<rparr>
                           else p)
                     else p2)
           in case py_iter (dict_get question ''skills'' (PList [])) of
                Inl e \<Rightarrow> Inl e
              | Inr tags \<Rightarrow>
                  (case skill_keys tags of
                     None \<Rightarrow> Inl InvalidDocument
                   | Some names \<Rightarrow>
                       Inr (d\<lparr>db_user_progress :=
                                upsert_progress (db_user_progress d) user_object_id
                                  (p3\<lparr>skills := fold (update_skill rnd ok) names (skills p3),
                                      updated_at := now\<rparr>)\<rparr>))))"

definition get_user_progress :: "nat \<Rightarrow> db \<Rightarrow> string \<Rightarrow> error + db \<times> progress" where
  "get_user_progress now d uid =
     (case ObjectId uid of
        Inl e \<Rightarrow> Inl e
      | Inr user_object_id \<Rightarrow>
          (case find_progress (db_user_progress d) user_object_id of
             Some p \<Rightarrow> Inr (d, p)
           | None \<Rightarrow>
               (let p = new_progress user_object_id now
                in Inr (d\<lparr>db_user_progress := db_user_progress d @ [p]\<rparr>, p))))"

text \<open>
  \<^verbatim>\<open>save_user_answer\<close>: the answer record is inserted before the progress is updated,
  so it stays when the update raises.
\<close>

definition save_user_answer ::
  "(rat \<Rightarrow> rat) \<Rightarrow> nat \<Rightarrow> db \<Rightarrow> string \<Rightarrow> string \<Rightarrow> pyval \<Rightarrow> rat
     \<Rightarrow> db \<times> (error + eval_result)" where
  "save_user_answer rnd now d uid question_id user_answer time_taken =
     (case ObjectId uid of
        Inl e \<Rightarrow> (d, Inl e)
      | Inr user_object_id \<Rightarrow>
     (case ObjectId question_id of
        Inl e \<Rightarrow> (d, Inl e)
      | Inr question_object_id \<Rightarrow>
     (case coll_find_one (db_questions d) (by_id question_object_id) of
        Inl e \<Rightarrow> (d, Inl e)
      | Inr None \<Rightarrow> (d, Inl ValueError)
      | Inr (Some question) \<Rightarrow>
          if question = [] then (d, Inl ValueError)
          else
     (case evaluate_answer question user_answer of
        Inl e \<Rightarrow> (d, Inl e)
      | Inr r \<Rightarrow>
          (let d1 = d\<lparr>db_user_answers := db_user_answers d @
                      [\<lparr>answer_user_id = user_object_id,
                        answer_question_id = question_object_id,
                        answer_user_answer = user_answer,
                        answer_is_correct = is_correct r,
                        answer_time_taken = time_taken,
                        answer_score = score r,
                        answer_timestamp = now\<rparr>]\<rparr>
           in case update_user_progress rnd now d1 uid question_id question (is_correct r) of
                Inl e \<Rightarrow> (d1, Inl e)
              | Inr d2 \<Rightarrow> (d2, Inr r))))))"

section \<open>The recommendation engine\<close>

text \<open>The \<^verbatim>\<open>$nin\<close> that is added when the list of completed questions is not empty.\<close>

definition completed_nin :: "progress \<Rightarrow> error + op list" where
  "completed_nin p =
     (if completed_questions p \<noteq> [] then
        (case object_ids (completed_questions p) of
           Inl e \<Rightarrow> Inl e
         | Inr hs \<Rightarrow> Inr [Nin (oid_values hs)])
      else Inr [])"

definition recommend_query :: "doc \<Rightarrow> string \<Rightarrow> progress \<Rightarrow> bool \<Rightarrow> error + query" where
  "recommend_query question cur p ok =
     (if ok then
        (case completed_nin p of
           Inl e \<Rightarrow> Inl e
         | Inr nin \<Rightarrow>
             Inr [(''topic'', Is (dict_get question ''topic'' (PS SNone))),
                  (''difficulty'', Ops [Gt (dict_get question ''difficulty'' (str_val ''medium''))]),
                  (''_id'', Ops (Ne (PS (SOid cur)) # nin))])
      else
        Inr ([(''topic'', Is (dict_get question ''topic'' (PS SNone))),
              (''difficulty'', Ops [Lte (dict_get question ''difficulty'' (str_val ''medium''))]),
              (''_id'', Ops [Ne (PS (SOid cur))])]
             @ (if map_of question ''skills'' \<noteq> None
                then [(''skills'', Ops [In (dict_get question ''skills'' (PList []))])]
                else [])))"

definition basic_query :: "string \<Rightarrow> progress \<Rightarrow> error + query" where
  "basic_query cur p =
     (case completed_nin p of
        Inl e \<Rightarrow> Inl e
      | Inr nin \<Rightarrow> Inr [(''_id'', Ops (Ne (PS (SOid cur)) # nin))])"

text \<open>\<^verbatim>\<open>not x\<close> for the result of \<^verbatim>\<open>find_one\<close>: \<^verbatim>\<open>None\<close> or an empty dictionary.\<close>

fun falsy :: "doc option \<Rightarrow> bool" where
  "falsy None = True"
| "falsy (Some q) = (q = [])"

definition recommend_next_question ::
  "nat \<Rightarrow> db \<Rightarrow> string \<Rightarrow> string \<Rightarrow> eval_result \<Rightarrow> db \<times> (error + string option)" where
  "recommend_next_question now d uid current_question_id result =
     (let question = get_question_by_id d current_question_id in
      if falsy question then (d, Inr None)
      else
     (case get_user_progress now d uid of
        Inl e \<Rightarrow> (d, Inl e)
      | Inr (d1, p) \<Rightarrow>
     (case ObjectId current_question_id of
        Inl e \<Rightarrow> (d1, Inl e)
      | Inr cur \<Rightarrow>
     (case recommend_query (the question) cur p (is_correct result) of
        Inl e \<Rightarrow> (d1, Inl e)
      | Inr query \<Rightarrow>
     (case coll_find_one (db_questions d1) query of
        Inl e \<Rightarrow> (d1, Inl e)
      | Inr found \<Rightarrow>
     (case (if falsy found then
              (case basic_query cur p of
                 Inl e \<Rightarrow> Inl e
               | Inr q \<Rightarrow> coll_find_one (db_questions d1) q)
            else Inr found) of
        Inl e \<Rightarrow> (d1, Inl e)
      | Inr next_question \<Rightarrow>
          if falsy next_question then (d1, Inr None)
          else (case map_of (the next_question) ''_id'' of
                  None \<Rightarrow> (d1, Inl KeyError)
                | Some v \<Rightarrow> (d1, Inr (Some (py_str v))))))))))"

section \<open>The response format\<close>

definition format_question_response :: "doc \<Rightarrow> error + doc" where
  "format_question_response question =
     (if question = [] then Inr []
      else
        (case map_of question ''_id'' of
           None \<Rightarrow> Inl KeyError
         | Some v \<Rightarrow>
             (let r1 = AList.update ''_id'' (str_val (py_str v)) question;
                  r2 = (if map_of r1 ''correct_answer'' \<noteq> None
                        then AList.delete ''correct_answer'' r1 else r1);
                  r3 = (if map_of r2 ''explanations'' \<noteq> None
                        then AList.delete ''explanations'' r2 else r2)
              in Inr r3)))"

text \<open>
  The handler of \<^verbatim>\<open>GET /questions/{question_id}\<close> in \<^verbatim>\<open>app/qna/routes.py\<close>, for an
  authenticated caller. It reads the store and writes nothing. The 404 is raised inside
  the \<^verbatim>\<open>try\<close> block, whose \<^verbatim>\<open>except Exception\<close> turns every exception into a 500.
\<close>

datatype response = Payload doc | HTTPException nat

definition get_question :: "db \<Rightarrow> string \<Rightarrow> db \<times> response" where
  "get_question d question_id =
     (let question = get_question_by_id d question_id in
      if falsy question then (d, HTTPException 500)
      else
        (case format_question_response (the question) of
           Inl e \<Rightarrow> (d, HTTPException 500)
         | Inr payload \<Rightarrow> (d, Payload payload)))"

section \<open>Sequences of calls\<close>

text \<open>
  A fresh store holds a catalog of questions and nothing else. The state after a
  sequence of calls of \<^verbatim>\<open>update_user_progress\<close>: a call that raises has written nothing,
  and the next call goes on from the same state.
\<close>

definition fresh_store :: "doc list \<Rightarrow> db" where
  "fresh_store catalog = \<lparr>db_questions = catalog, db_user_answers = [], db_user_progress = []\<rparr>"

record submission =
  sub_now :: nat
  sub_user :: string
  sub_question_id :: string
  sub_question :: doc
  sub_correct :: bool

fun run_submissions :: "(rat \<Rightarrow> rat) \<Rightarrow> db \<Rightarrow> submission list \<Rightarrow> db" where
  "run_submissions rnd d [] = d"
| "run_submissions rnd d (s # ss) =
     run_submissions rnd
       (case update_user_progress rnd (sub_now s) d (sub_user s) (sub_question_id s)
               (sub_question s) (sub_correct s) of
          Inl e \<Rightarrow> d
        | Inr d' \<Rightarrow> d') ss"

text \<open>The state after a sequence of answers sent through \<^verbatim>\<open>save_user_answer\<close>.\<close>

record answer_request =
  req_now :: nat
  req_user :: string
  req_question_id :: string
  req_answer :: pyval

fun submit_all :: "(rat \<Rightarrow> rat) \<Rightarrow> db \<Rightarrow> answer_request list \<Rightarrow> db" where
  "submit_all rnd d [] = d"
| "submit_all rnd d (r # rs) =
     submit_all rnd
       (fst (save_user_answer rnd (req_now r) d (req_user r) (req_question_id r) (req_answer r) 0))
       rs"

section \<open>Invariants of a progress document\<close>

text \<open>
  What the proofs need of the rounding function. All of it holds of binary64 with
  rounding to nearest: rounding is monotone; 0, 1 and 100 are floats; the float
  \<^verbatim>\<open>0.9\<close> lies between 0 and 1; \<^verbatim>\<open>100 * 0.9\<close> is \<^verbatim>\<open>90.0\<close>, \<^verbatim>\<open>100 * (1 - 0.9)\<close> is
  \<^verbatim>\<open>9.999999999999998\<close> and their sum rounds to \<^verbatim>\<open>100.0\<close>.
\<close>

definition rounding :: "(rat \<Rightarrow> rat) \<Rightarrow> bool" where
  "rounding rnd =
     (mono rnd \<and> rnd 0 = 0 \<and> rnd 1 = 1 \<and> rnd 100 = 100 \<and>
      0 \<le> rnd (9 / 10) \<and> rnd (9 / 10) \<le> 1 \<and>
      rnd (rnd (100 * rnd (9 / 10)) + rnd (100 * rnd (1 - rnd (9 / 10)))) \<le> 100)"

text \<open>The document that \<^verbatim>\<open>get_user_progress\<close> and \<^verbatim>\<open>update_user_progress\<close> start from.\<close>

definition initial :: "progress \<Rightarrow> bool" where
  "initial p = (p = new_progress (user_id p) (created_at p))"

text \<open>The invariant of the data model.\<close>

definition progress_inv :: "progress \<Rightarrow> bool" where
  "progress_inv p =
     (set (completed_questions p) \<subseteq> set (attempted_questions p) \<and>
      correct_answers p \<le> total_attempts p \<and>
      list_all (\<lambda>kv. 0 \<le> mastery_level (snd kv) \<and> mastery_level (snd kv) \<le> 100) (skills p))"

text \<open>The invariant that the updater preserves: the counters of a skill are kept too.\<close>

definition stat_ok :: "skill_stat \<Rightarrow> bool" where
  "stat_ok st =
     (0 \<le> mastery_level st \<and> mastery_level st \<le> 100 \<and>
      0 \<le> correct st \<and> correct st \<le> attempts st)"

definition progress_ok :: "progress \<Rightarrow> bool" where
  "progress_ok p =
     (set (completed_questions p) \<subseteq> set (attempted_questions p) \<and>
      correct_answers p \<le> total_attempts p \<and>
      list_all (\<lambda>kv. stat_ok (snd kv)) (skills p))"

text \<open>A document whose \<^verbatim>\<open>_id\<close> is none of the given ObjectIds.\<close>

definition fresh_for :: "string list \<Rightarrow> doc \<Rightarrow> bool" where
  "fresh_for hs q = (\<forall>h\<in>set hs. map_of q ''_id'' \<noteq> Some (PS (SOid h)))"

section \<open>Example data\<close>

definition user1 :: string where "user1 = ''0000000000000000000000ff''"
definition id1 :: string where "id1 = ''000000000000000000000001''"
definition id2 :: string where "id2 = ''000000000000000000000002''"
definition id3 :: string where "id3 = ''000000000000000000000003''"
definition id4 :: string where "id4 = ''000000000000000000000004''"
definition id5 :: string where "id5 = ''000000000000000000000005''"
definition id6 :: string where "id6 = ''000000000000000000000006''"

definition algebra_medium :: doc where
  "algebra_medium =
     [(''_id'', PS (SOid id1)), (''topic'', str_val ''algebra''),
      (''difficulty'', str_val ''medium''), (''correct_answer'', str_val ''B''),
      (''priority'', PS (SInt 1))]"

definition geometry_easy :: doc where
  "geometry_easy =
     [(''_id'', PS (SOid id2)), (''topic'', str_val ''geometry''),
      (''difficulty'', str_val ''easy''), (''correct_answer'', str_val ''B''),
      (''priority'', PS (SInt 2))]"

definition algebra_hard :: doc where
  "algebra_hard =
     [(''_id'', PS (SOid id3)), (''topic'', str_val ''algebra''),
      (''difficulty'', str_val ''hard''), (''correct_answer'', str_val ''B''),
      (''priority'', PS (SInt 3))]"

definition algebra_easy :: doc where
  "algebra_easy =
     [(''_id'', PS (SOid id4)), (''topic'', str_val ''algebra''),
      (''difficulty'', str_val ''easy''), (''correct_answer'', str_val ''B'')]"

definition fractions_question :: doc where
  "fractions_question =
     [(''_id'', PS (SOid id5)), (''type'', str_val ''text''),
      (''skills'', PList [SStr ''fractions'']), (''correct_answer'', str_val ''One Half''),
      (''explanation'', str_val ''two quarters'')]"

definition essay_question :: doc where
  "essay_question =
     [(''_id'', PS (SOid id6)), (''type'', str_val ''essay''),
      (''correct_answer'', str_val ''B''), (''points'', PS (SInt 10)),
      (''explanations'', PDict [(''A'', SStr ''too broad'')])]"

definition store1 :: db where
  "store1 = fresh_store [algebra_medium, geometry_easy, algebra_hard]"

definition store4 :: db where
  "store4 = fresh_store [algebra_medium, algebra_easy]"

definition store5 :: db where
  "store5 = fresh_store [fractions_question]"


definition progress5_second :: progress where
  "progress5_second =
     \<lparr>user_id = user1, completed_questions = [id5], attempted_questions = [id5],
      correct_answers = 1, total_attempts = 2,
      skills = [(''fractions'', \<lparr>mastery_level = 14, attempts = 2, correct = 1\<rparr>)],
      created_at = 5, updated_at = 6\<rparr>"

text \<open>
  The same two answers in binary64: \<^verbatim>\<open>9.999999999999998\<close> after the first and
  \<^verbatim>\<open>13.999999999999996\<close> after the second.
\<close>

definition progress5_first64 :: progress where
  "progress5_first64 =
     \<lparr>user_id = user1, completed_questions = [id5], attempted_questions = [id5],
      correct_answers = 1, total_attempts = 1,
      skills = [(''fractions'',
                 \<lparr>mastery_level = 5629499534213119 / 562949953421312,
                  attempts = 1, correct = 1\<rparr>)],
      created_at = 5, updated_at = 5\<rparr>"

definition progress5_second64 :: progress where
  "progress5_second64 =
     \<lparr>user_id = user1, completed_questions = [id5], attempted_questions = [id5],
      correct_answers = 1, total_attempts = 2,
      skills = [(''fractions'',
                 \<lparr>mastery_level = 3940649673949183 / 281474976710656,
                  attempts = 2, correct = 1\<rparr>)],
      created_at = 5, updated_at = 6\<rparr>"

definition progress_done1 :: progress where
  "progress_done1 =
     \<lparr>user_id = user1, completed_questions = [id1], attempted_questions = [id1],
      correct_answers = 1, total_attempts = 1, skills = [],
      created_at = 5, updated_at = 5\<rparr>"

definition correct_result :: eval_result where
  "correct_result =
     \<lparr>is_correct = True, feedback = str_val ''Correct!'', score = PS (SInt 10)\<rparr>"

definition rejected :: eval_result where
  "rejected =
     \<lparr>is_correct = False, feedback = str_val ''Incorrect answer.'', score = PS (SInt 0)\<rparr>"

section \<open>The answer evaluator: question types\<close>

lemma py_eq_str: "py_eq v (PS (SStr s)) = (v = PS (SStr s))"
proof (cases v)
  case (PS x)
  then show ?thesis by (cases x) (auto simp: scalar_eq_def)
qed auto

text \<open>
  C2, as the code has it. A question whose \<^verbatim>\<open>type\<close> field holds a value other than
  \<^verbatim>\<open>"multiple_choice"\<close> and \<^verbatim>\<open>"text"\<close> enters neither branch of the evaluator: every
  answer is marked incorrect, with score 0 and the feedback \<^verbatim>\<open>"Incorrect answer."\<close>,
  whatever \<^verbatim>\<open>correct_answer\<close>, \<^verbatim>\<open>points\<close> and \<^verbatim>\<open>explanations\<close> hold.
\<close>

theorem unknown_type_rejected:
  assumes "map_of question ''type'' = Some t"
    and "t \<noteq> str_val ''multiple_choice''" and "t \<noteq> str_val ''text''"
  shows "evaluate_answer question user_answer = Inr rejected"
  using assms
  by (simp add: evaluate_answer_def dict_get_def str_val_def py_eq_str rejected_def)

theorem unknown_type_rejected_witness:
  "map_of essay_question ''type'' = Some (str_val ''essay'') \<and>
   str_val ''essay'' \<noteq> str_val ''multiple_choice'' \<and>
   str_val ''essay'' \<noteq> str_val ''text'' \<and>
   evaluate_answer essay_question (str_val ''A'') = Inr rejected"
proof -
  have t: "map_of essay_question ''type'' = Some (str_val ''essay'')"
    by (simp add: essay_question_def)
  have m: "str_val ''essay'' \<noteq> str_val ''multiple_choice''"
    and x: "str_val ''essay'' \<noteq> str_val ''text''"
    by (simp_all add: str_val_def)
  from t m x unknown_type_rejected[OF t m x, of "str_val ''A''"] show ?thesis
    by (intro conjI)
qed

text \<open>
  C2, as the claim states it, fails: the answer \<^verbatim>\<open>"B"\<close> to a question of type
  \<^verbatim>\<open>"essay"\<close> whose \<^verbatim>\<open>correct_answer\<close> is \<^verbatim>\<open>"B"\<close> and whose \<^verbatim>\<open>points\<close> are 10 is marked
  incorrect with score 0.
\<close>

theorem unknown_type_counterexample:
  "dict_get essay_question ''type'' (str_val ''multiple_choice'') = str_val ''essay'' \<and>
   py_eq (str_val ''B'') (dict_get essay_question ''correct_answer'' (PS SNone)) \<and>
   dict_get essay_question ''points'' (PS (SInt 10)) = PS (SInt 10) \<and>
   evaluate_answer essay_question (str_val ''B'') =
     Inr \<lparr>is_correct = False, feedback = str_val ''Incorrect answer.'', score = PS (SInt 0)\<rparr>"
  by code_simp

section \<open>The response format\<close>

lemma format_lookup:
  assumes "map_of question ''_id'' = Some v"
  shows "\<exists>r. format_question_response question = Inr r \<and>
     (\<forall>k. map_of r k =
        (if k = ''correct_answer'' \<or> k = ''explanations'' then None
         else if k = ''_id'' then Some (str_val (py_str v))
         else map_of question k))"
proof -
  from assms have "question \<noteq> []" by auto
  with assms show ?thesis
    by (simp add: format_question_response_def Let_def delete_conv update_conv
        del: map_of_eq_None_iff)
qed

lemma find_one_by_id:
  assumes "coll_find_one coll (by_id h) = Inr (Some q)"
  shows "field_eq (map_of q ''_id'') (PS (SOid h))"
proof -
  from assms obtain qs where "filter (matches (by_id h)) coll = q # qs"
    by (auto simp: coll_find_one_def coll_find_def split: list.splits if_splits)
  then have "q \<in> set (filter (matches (by_id h)) coll)" by simp
  then show ?thesis by (simp add: matches_def by_id_def)
qed

lemma get_question_by_id_has_id:
  "get_question_by_id d i = Some q \<Longrightarrow> \<exists>v. map_of q ''_id'' = Some v"
  by (auto simp: get_question_by_id_def field_eq_def field_any_def
      dest!: find_one_by_id split: sum.splits option.splits)

text \<open>
  C8. A question that the store returns for an id is formatted without an error, the
  payload has neither the key \<^verbatim>\<open>correct_answer\<close> nor the key \<^verbatim>\<open>explanations\<close>, and the
  handler of \<^verbatim>\<open>GET /questions/{id}\<close> answers with this payload and leaves the store as
  it was, so that the same request repeated gets the same answer.
\<close>

theorem stripped_payload_stable:
  assumes "get_question_by_id d question_id = Some question"
  shows "\<exists>payload. format_question_response question = Inr payload \<and>
           map_of payload ''correct_answer'' = None \<and>
           map_of payload ''explanations'' = None \<and>
           get_question d question_id = (d, Payload payload) \<and>
           get_question (fst (get_question d question_id)) question_id = (d, Payload payload)"
proof -
  from get_question_by_id_has_id[OF assms] obtain v where v: "map_of question ''_id'' = Some v" ..
  from format_lookup[OF v] obtain r where r: "format_question_response question = Inr r"
    and k: "\<And>k. map_of r k =
        (if k = ''correct_answer'' \<or> k = ''explanations'' then None
         else if k = ''_id'' then Some (str_val (py_str v))
         else map_of question k)"
    by blast
  from v have ne: "question \<noteq> []" by auto
  have g: "get_question d question_id = (d, Payload r)"
    using assms r ne by (simp add: get_question_def)
  show ?thesis
    using r g k[of "''correct_answer''"] k[of "''explanations''"] by simp
qed

theorem stripped_payload_stable_witness:
  "get_question_by_id store5 id5 = Some fractions_question \<and>
   (\<exists>payload. format_question_response fractions_question = Inr payload \<and>
           map_of payload ''correct_answer'' = None \<and>
           map_of payload ''explanations'' = None \<and>
           get_question store5 id5 = (store5, Payload payload) \<and>
           get_question (fst (get_question store5 id5)) id5 = (store5, Payload payload))"
proof -
  have h: "get_question_by_id store5 id5 = Some fractions_question" by code_simp
  from h stripped_payload_stable[OF h] show ?thesis by (rule conjI)
qed

text \<open>
  C9. For a document with an \<^verbatim>\<open>_id\<close>, the payload has no key \<^verbatim>\<open>correct_answer\<close> and no
  key \<^verbatim>\<open>explanations\<close>, its \<^verbatim>\<open>_id\<close> is the string that \<^verbatim>\<open>str\<close> gives for the stored one,
  and every other key holds what the stored document holds: in particular the field
  \<^verbatim>\<open>explanation\<close> of a free-text question is served as it is stored.
\<close>

theorem format_passes_other_fields:
  assumes "map_of question ''_id'' = Some v"
  shows "\<exists>payload. format_question_response question = Inr payload \<and>
           (\<forall>k. map_of payload k =
              (if k = ''correct_answer'' \<or> k = ''explanations'' then None
               else if k = ''_id'' then Some (str_val (py_str v))
               else map_of question k)) \<and>
           map_of payload ''explanation'' = map_of question ''explanation''"
proof -
  from format_lookup[OF assms] obtain r where r: "format_question_response question = Inr r"
    and k: "\<And>k. map_of r k =
        (if k = ''correct_answer'' \<or> k = ''explanations'' then None
         else if k = ''_id'' then Some (str_val (py_str v))
         else map_of question k)"
    by blast
  have "map_of r ''explanation'' = map_of question ''explanation''"
    by (simp add: k)
  with r k show ?thesis by blast
qed

theorem format_passes_other_fields_witness:
  "map_of fractions_question ''_id'' = Some (PS (SOid id5)) \<and>
   map_of fractions_question ''explanation'' = Some (str_val ''two quarters'') \<and>
   (\<exists>payload. format_question_response fractions_question = Inr payload \<and>
           (\<forall>k. map_of payload k =
              (if k = ''correct_answer'' \<or> k = ''explanations'' then None
               else if k = ''_id'' then Some (str_val (py_str (PS (SOid id5))))
               else map_of fractions_question k)) \<and>
           map_of payload ''explanation'' = map_of fractions_question ''explanation'')"
proof -
  have h: "map_of fractions_question ''_id'' = Some (PS (SOid id5))"
    by (simp add: fractions_question_def)
  have e: "map_of fractions_question ''explanation'' = Some (str_val ''two quarters'')"
    by (simp add: fractions_question_def)
  from h e format_passes_other_fields[OF h] show ?thesis by (intro conjI)
qed

section \<open>The question selector\<close>

lemma set_insert_sorted: "set (insert_sorted k d es) = insert d (set es)"
  by (induction es) auto

lemma set_coll_sort: "set (coll_sort k ds) = set ds"
  unfolding coll_sort_def by (induction ds) (auto simp: set_insert_sorted)

lemma set_coll_limit: "set (coll_limit n ds) \<subseteq> set ds"
  unfolding coll_limit_def by (rule set_take_subset)

lemma length_coll_limit: "length (coll_limit n ds) \<le> n"
  unfolding coll_limit_def by simp

lemma matches_entry: "matches q d \<Longrightarrow> (k, c) \<in> set q \<Longrightarrow> matches_cond (map_of d k) c"
  unfolding matches_def list_all_iff by auto

lemma coll_find_matches: "coll_find coll q = Inr ds \<Longrightarrow> x \<in> set ds \<Longrightarrow> matches q x"
  by (auto simp: coll_find_def split: if_splits)

lemma object_ids_mem:
  "object_ids cs = Inr hs \<Longrightarrow> c \<in> set cs \<Longrightarrow> ObjectId c = Inr h \<Longrightarrow> h \<in> set hs"
  by (induction cs arbitrary: hs) (auto split: sum.splits)

lemma nin_excludes:
  assumes "matches_cond fv (Ops (Nin (vs @ oid_values hs) # os))" and "h \<in> set hs"
  shows "fv \<noteq> Some (PS (SOid h))"
  using assms
  by (auto simp: list_ex_iff oid_values_def field_eq_def field_any_def value_eq_def)

lemma find_fresh:
  assumes "coll_find coll q = Inr ds"
    and "(''_id'', Ops (Nin (vs @ oid_values hs) # os)) \<in> set q"
    and "x \<in> set ds"
  shows "fresh_for hs x"
  unfolding fresh_for_def
  using nin_excludes matches_entry[OF coll_find_matches[OF assms(1,3)] assms(2)] by blast

lemma first_query_id:
  assumes "first_query difficulty subject topic (Some p) = Inr query"
  shows "\<exists>hs. object_ids (completed_questions p) = Inr hs \<and>
              (''_id'', Ops (Nin ([] @ oid_values hs) # [])) \<in> set query"
  using assms by (auto simp: first_query_def split: sum.splits)

lemma delete_keeps: "(k, c) \<in> set q \<Longrightarrow> k \<noteq> k' \<Longrightarrow> (k, c) \<in> set (AList.delete k' q)"
  by (induction q) auto

lemma second_stage_fresh:
  assumes "second_stage d count query qs1 = Inr qs2"
    and "(''_id'', Ops (Nin ([] @ oid_values hs) # [])) \<in> set query"
    and "\<forall>q\<in>set qs1. fresh_for hs q" and "length qs1 \<le> count"
  shows "(\<forall>q\<in>set qs2. fresh_for hs q) \<and> length qs2 \<le> count"
proof (cases "length qs1 < count \<and> map_of query ''topic'' \<noteq> None")
  case True
  with assms(1) obtain found where
    f: "coll_find (db_questions d) (AList.delete ''topic'' query) = Inr found"
    and q2: "qs2 = qs1 @ coll_limit (count - length qs1) (coll_sort ''priority'' found)"
    by (auto simp: second_stage_def split: sum.splits)
  have "(''_id'', Ops (Nin ([] @ oid_values hs) # [])) \<in> set (AList.delete ''topic'' query)"
    using assms(2) by (rule delete_keeps) simp
  then have "\<forall>x\<in>set found. fresh_for hs x"
    using find_fresh[OF f] by blast
  moreover
  have "set (coll_limit (count - length qs1) (coll_sort ''priority'' found)) \<subseteq> set found"
    using set_coll_limit set_coll_sort by fastforce
  moreover
  have "length (coll_limit (count - length qs1) (coll_sort ''priority'' found))
          \<le> count - length qs1"
    by (rule length_coll_limit)
  ultimately show ?thesis using assms(3,4) q2 by auto
next
  case False
  with assms show ?thesis by (auto simp: second_stage_def)
qed

lemma third_stage_fresh:
  assumes "third_stage d count (Some p) qs2 = Inr qs"
    and "object_ids (completed_questions p) = Inr hs"
    and "\<forall>q\<in>set qs2. fresh_for hs q" and "length qs2 \<le> count"
  shows "(\<forall>q\<in>set qs. fresh_for hs q) \<and> length qs \<le> count"
proof (cases "length qs2 < count")
  case True
  with assms(1,2) obtain ids found where
    f: "coll_find (db_questions d) [(''_id'', Ops [Nin (ids @ oid_values hs)])] = Inr found"
    and q: "qs = qs2 @ coll_limit (count - length qs2) found"
    by (auto simp: third_stage_def split: sum.splits)
  have "\<forall>x\<in>set found. fresh_for hs x"
    using find_fresh[OF f] by auto
  moreover have "set (coll_limit (count - length qs2) found) \<subseteq> set found"
    by (rule set_coll_limit)
  moreover have "length (coll_limit (count - length qs2) found) \<le> count - length qs2"
    by (rule length_coll_limit)
  ultimately show ?thesis using assms(3,4) q by auto
next
  case False
  with assms show ?thesis by (auto simp: third_stage_def)
qed

text \<open>
  C4. For a count from 1 to 10 and a progress document, a list that
  \<^verbatim>\<open>get_next_questions\<close> returns has at most \<open>count\<close> questions, and none of them has
  the \<^verbatim>\<open>ObjectId\<close> of an entry of \<^verbatim>\<open>completed_questions\<close> as its \<^verbatim>\<open>_id\<close>, whichever of
  the three stages supplied it: the id of a returned question, printed as the 24
  digits of an \<^verbatim>\<open>ObjectId\<close>, is not in \<^verbatim>\<open>completed_questions\<close>.
\<close>

theorem get_next_questions_bounded_fresh:
  assumes "1 \<le> count" and "count \<le> 10"
    and "get_next_questions d count difficulty subject topic (Some p) = Inr qs"
  shows "length qs \<le> count \<and>
         (\<forall>q\<in>set qs. \<forall>c\<in>set (completed_questions p). \<forall>h.
             ObjectId c = Inr h \<longrightarrow> map_of q ''_id'' \<noteq> Some (PS (SOid h))) \<and>
         (\<forall>q\<in>set qs. \<forall>h.
             map_of q ''_id'' = Some (PS (SOid h)) \<longrightarrow> ObjectId h = Inr h \<longrightarrow>
             h \<notin> set (completed_questions p))"
proof -
  from assms(3) obtain query found qs2 where
    fq: "first_query difficulty subject topic (Some p) = Inr query"
    and f: "coll_find (db_questions d) query = Inr found"
    and s2: "second_stage d count query (coll_limit count (coll_sort ''priority'' found)) = Inr qs2"
    and s3: "third_stage d count (Some p) qs2 = Inr qs"
    by (auto simp: get_next_questions_def split: sum.splits)
  from first_query_id[OF fq] obtain hs where
    hs: "object_ids (completed_questions p) = Inr hs"
    and idq: "(''_id'', Ops (Nin ([] @ oid_values hs) # [])) \<in> set query"
    by blast
  have "\<forall>x\<in>set found. fresh_for hs x"
    using find_fresh[OF f idq] by blast
  moreover have "set (coll_limit count (coll_sort ''priority'' found)) \<subseteq> set found"
    using set_coll_limit set_coll_sort by fastforce
  ultimately have one: "\<forall>q\<in>set (coll_limit count (coll_sort ''priority'' found)). fresh_for hs q"
    by blast
  have two: "(\<forall>q\<in>set qs2. fresh_for hs q) \<and> length qs2 \<le> count"
    using second_stage_fresh[OF s2 idq one length_coll_limit] .
  have three: "(\<forall>q\<in>set qs. fresh_for hs q) \<and> length qs \<le> count"
    using third_stage_fresh[OF s3 hs] two by blast
  show ?thesis
    using three object_ids_mem[OF hs] unfolding fresh_for_def by blast
qed

theorem get_next_questions_bounded_fresh_witness:
  "(1::nat) \<le> 2 \<and> (2::nat) \<le> 10 \<and>
   get_next_questions store1 2 None None None (Some progress_done1)
     = Inr [geometry_easy, algebra_hard] \<and>
   ObjectId id1 = Inr id1 \<and>
   length [geometry_easy, algebra_hard] \<le> 2 \<and>
   map_of geometry_easy ''_id'' \<noteq> Some (PS (SOid id1)) \<and>
   map_of algebra_hard ''_id'' \<noteq> Some (PS (SOid id1)) \<and>
   id2 \<notin> set (completed_questions progress_done1) \<and>
   id3 \<notin> set (completed_questions progress_done1)"
proof -
  have a: "(1::nat) \<le> 2" and b: "(2::nat) \<le> 10" by simp_all
  have h: "get_next_questions store1 2 None None None (Some progress_done1)
             = Inr [geometry_easy, algebra_hard]"
    by code_simp
  have o: "ObjectId id1 = Inr id1" by code_simp
  have c: "id1 \<in> set (completed_questions progress_done1)" by (simp add: progress_done1_def)
  have o2: "ObjectId id2 = Inr id2" and o3: "ObjectId id3 = Inr id3" by code_simp+
  have i2: "map_of geometry_easy ''_id'' = Some (PS (SOid id2))"
    and i3: "map_of algebra_hard ''_id'' = Some (PS (SOid id3))"
    by (simp_all add: geometry_easy_def algebra_hard_def)
  note t = get_next_questions_bounded_fresh[OF a b h]
  from t have l: "length [geometry_easy, algebra_hard] \<le> 2" by (rule conjunct1)
  from t have n: "\<forall>q\<in>set [geometry_easy, algebra_hard].
              \<forall>c\<in>set (completed_questions progress_done1).
              \<forall>h. ObjectId c = Inr h \<longrightarrow> map_of q ''_id'' \<noteq> Some (PS (SOid h))"
    by (rule conjunct1[OF conjunct2])
  from t have m: "\<forall>q\<in>set [geometry_easy, algebra_hard]. \<forall>h.
             map_of q ''_id'' = Some (PS (SOid h)) \<longrightarrow> ObjectId h = Inr h \<longrightarrow>
             h \<notin> set (completed_questions progress_done1)"
    by (rule conjunct2[OF conjunct2])
  from n c o have n2: "map_of geometry_easy ''_id'' \<noteq> Some (PS (SOid id1))"
    and n3: "map_of algebra_hard ''_id'' \<noteq> Some (PS (SOid id1))"
    by auto
  from m i2 o2 have m2: "id2 \<notin> set (completed_questions progress_done1)" by auto
  from m i3 o3 have m3: "id3 \<notin> set (completed_questions progress_done1)" by auto
  from a b h o l n2 n3 m2 m3 show ?thesis by (intro conjI)
qed

text \<open>
  C3, at an input where the code breaks it. The catalog holds two algebra questions
  and one geometry question, the user has completed nothing, and three questions on
  the topic algebra are asked for. The first query finds the two algebra questions;
  the second query, without the topic, does not exclude them and its first result is
  the first of them again: the list returned holds the question \<open>id1\<close> twice.
\<close>

theorem get_next_questions_repeats:
  "get_next_questions store1 3 None None (Some ''algebra'') (Some (new_progress user1 0))
     = Inr [algebra_medium, algebra_hard, algebra_medium]"
  by code_simp

section \<open>The progress updater\<close>

lemma find_progress_user: "find_progress ps u = Some p \<Longrightarrow> user_id p = u"
  by (auto simp: find_progress_def find_Some_iff)

lemma find_upsert: "user_id p = u \<Longrightarrow> find_progress (upsert_progress ps u p) u = Some p"
  by (induction ps) (auto simp: find_progress_def)

lemma load_progress_user: "user_id (load_progress now d u) = u"
  by (auto simp: load_progress_def new_progress_def find_progress_user split: option.splits)



subsection \<open>Mastery of a skill\<close>

lemma update_skill_self:
  "map_of (update_skill rnd ok k sk) k =
     Some \<lparr>mastery_level =
             (if attempts (skill_entry sk k) + 1 > 0
              then new_mastery rnd (mastery_level (skill_entry sk k))
                     (if ok then correct (skill_entry sk k) + 1 else correct (skill_entry sk k))
                     (attempts (skill_entry sk k) + 1)
              else mastery_level (skill_entry sk k)),
           attempts = attempts (skill_entry sk k) + 1,
           correct = (if ok then correct (skill_entry sk k) + 1 else correct (skill_entry sk k))\<rparr>"
  by (simp add: update_skill_def Let_def update_conv)

lemma update_skill_other: "k \<noteq> k' \<Longrightarrow> map_of (update_skill rnd ok k' sk) k = map_of sk k"
  by (simp add: update_skill_def Let_def update_conv)

lemma skill_entry_cong: "map_of sk k = map_of sk' k \<Longrightarrow> skill_entry sk k = skill_entry sk' k"
  by (simp add: skill_entry_def)

lemma skill_entry_new:
  "map_of sk k = None \<Longrightarrow> skill_entry sk k = \<lparr>mastery_level = 0, attempts = 0, correct = 0\<rparr>"
  by (simp add: skill_entry_def)

lemma fold_update_skill_notin:
  "k \<notin> set names \<Longrightarrow> map_of (fold (update_skill rnd ok) names sk) k = map_of sk k"
  by (induction names arbitrary: sk) (auto simp: update_skill_other)

lemma fold_update_skill_once:
  "distinct names \<Longrightarrow> k \<in> set names \<Longrightarrow>
     map_of (fold (update_skill rnd ok) names sk) k = map_of (update_skill rnd ok k sk) k"
proof (induction names arbitrary: sk)
  case Nil
  then show ?case by simp
next
  case (Cons n ns)
  show ?case
  proof (cases "k = n")
    case True
    then show ?thesis using Cons.prems by (simp add: fold_update_skill_notin)
  next
    case False
    then have "map_of (fold (update_skill rnd ok) (n # ns) sk) k
                 = map_of (update_skill rnd ok k (update_skill rnd ok n sk)) k"
      using Cons by simp
    also have "\<dots> = map_of (update_skill rnd ok k sk) k"
    proof -
      have "map_of (update_skill rnd ok n sk) k = map_of sk k"
        using False by (rule update_skill_other)
      then have "skill_entry (update_skill rnd ok n sk) k = skill_entry sk k"
        by (rule skill_entry_cong)
      then show ?thesis by (simp only: update_skill_self)
    qed
    finally show ?thesis .
  qed
qed

lemma skill_keys_map: "skill_keys tags = Some names \<Longrightarrow> tags = map SStr names"
  by (induction tags arbitrary: names rule: skill_keys.induct) (auto split: if_splits)

lemma new_mastery_exact:
  "\<forall>x. rnd x = x \<Longrightarrow>
     new_mastery rnd old c a = old * (9 / 10) + (100 * of_int c / of_int a) * (1 / 10)"
  by (simp add: new_mastery_def Let_def)

text \<open>
  C5, as the code has it. Let the skills of the answered question be a list of distinct
  tags and \<open>k\<close> one of them. After \<^verbatim>\<open>update_user_progress\<close> the entry of \<open>k\<close> has one
  more attempt than the entry stored before, one more correct answer when the answer
  was correct and, the attempts being positive, the mastery level
  \<^verbatim>\<open>old_mastery * 0.9 + ((correct / attempts) * 100) * (1 - 0.9)\<close> over the mastery level
  stored before and the counters after the increments, where the literal \<^verbatim>\<open>0.9\<close> and
  the result of every operation are rounded. A skill without an entry starts from
  mastery level 0, 0 attempts and 0 correct answers.
\<close>

theorem update_user_progress_mastery:
  assumes u: "update_user_progress rnd now d uid question_id question ok = Inr d'"
    and tags: "py_iter (dict_get question ''skills'' (PList [])) = Inr tags"
    and dist: "distinct tags" and k: "SStr k \<in> set tags"
  shows "\<exists>u p' st'. ObjectId uid = Inr u \<and> find_progress (db_user_progress d') u = Some p' \<and>
           map_of (skills p') k = Some st' \<and>
           (case map_of (skills (load_progress now d u)) k of
              None \<Rightarrow>
                attempts st' = 1 \<and> correct st' = (if ok then 1 else 0) \<and>
                mastery_level st' =
                  rnd (rnd (0 * rnd (9 / 10))
                       + rnd (rnd (rnd (of_int (correct st') / of_int 1) * 100)
                              * rnd (1 - rnd (9 / 10))))
            | Some st \<Rightarrow>
                attempts st' = attempts st + 1 \<and>
                correct st' = (if ok then correct st + 1 else correct st) \<and>
                mastery_level st' =
                  (if 0 < attempts st' then
                     rnd (rnd (mastery_level st * rnd (9 / 10))
                          + rnd (rnd (rnd (of_int (correct st') / of_int (attempts st')) * 100)
                                 * rnd (1 - rnd (9 / 10))))
                   else mastery_level st))"
proof -
  define q3 where "q3 user =
         (let p0 = load_progress now d user;
               p1 = p0\<lparr>total_attempts := total_attempts p0 + 1\<rparr>;
               p2 = (if question_id \<notin> set (attempted_questions p1)
                     then p1\<lparr>attempted_questions := attempted_questions p1 @ [question_id]\<rparr>
                     else p1)
          in if ok then
               (let p = p2\<lparr>correct_answers := correct_answers p2 + 1\<rparr>
                in if question_id \<notin> set (completed_questions p)
                   then p\<lparr>completed_questions := completed_questions p @ [question_id]\<rparr>
                   else p)
             else p2)" for user
  from u tags obtain user names where user: "ObjectId uid = Inr user"
    and names: "skill_keys tags = Some names"
    and d0: "d' = d\<lparr>db_user_progress := upsert_progress (db_user_progress d) user
                ((q3 user)\<lparr>skills := fold (update_skill rnd ok) names (skills (q3 user)),
                   updated_at := now\<rparr>)\<rparr>"
    by (auto simp: update_user_progress_def Let_def q3_def split: sum.splits option.splits)
  define p3 where "p3 = q3 user"
  have p3: "skills p3 = skills (load_progress now d user)" "user_id p3 = user"
    by (simp_all add: p3_def q3_def Let_def load_progress_user)
  have d': "d' = d\<lparr>db_user_progress := upsert_progress (db_user_progress d) user
                (p3\<lparr>skills := fold (update_skill rnd ok) names (skills p3), updated_at := now\<rparr>)\<rparr>"
    using d0 by (simp add: p3_def)
  define pn where
    "pn = p3\<lparr>skills := fold (update_skill rnd ok) names (skills p3), updated_at := now\<rparr>"
  have f: "find_progress (db_user_progress d') user = Some pn"
    unfolding d' pn_def using p3(2) by (simp add: find_upsert)
  have tn: "tags = map SStr names" using names by (rule skill_keys_map)
  have dn: "distinct names" using dist unfolding tn by (simp add: distinct_map)
  have kn: "k \<in> set names" using k unfolding tn by auto
  define old where "old = skills (load_progress now d user)"
  have sk: "map_of (skills pn) k = map_of (update_skill rnd ok k old) k"
    unfolding pn_def old_def using fold_update_skill_once[OF dn kn] p3(1) by simp
  obtain st' where st': "map_of (skills pn) k = Some st'"
    unfolding sk update_skill_self by blast
  have "case map_of old k of
          None \<Rightarrow>
            attempts st' = 1 \<and> correct st' = (if ok then 1 else 0) \<and>
            mastery_level st' =
              rnd (rnd (0 * rnd (9 / 10))
                   + rnd (rnd (rnd (of_int (correct st') / of_int 1) * 100)
                          * rnd (1 - rnd (9 / 10))))
        | Some st \<Rightarrow>
            attempts st' = attempts st + 1 \<and>
            correct st' = (if ok then correct st + 1 else correct st) \<and>
            mastery_level st' =
              (if 0 < attempts st' then
                 rnd (rnd (mastery_level st * rnd (9 / 10))
                      + rnd (rnd (rnd (of_int (correct st') / of_int (attempts st')) * 100)
                             * rnd (1 - rnd (9 / 10))))
               else mastery_level st)"
  proof (cases "map_of old k")
    case None
    then have "skill_entry old k = \<lparr>mastery_level = 0, attempts = 0, correct = 0\<rparr>"
      by (rule skill_entry_new)
    with st' None show ?thesis
      unfolding sk update_skill_self by (auto simp: new_mastery_def Let_def)
  next
    case (Some st)
    then have "skill_entry old k = st" by (simp add: skill_entry_def)
    with st' Some show ?thesis
      unfolding sk update_skill_self by (auto simp: new_mastery_def Let_def)
  qed
  with user f st' show ?thesis unfolding old_def by blast
qed

theorem update_user_progress_mastery_witness:
  "update_user_progress binary64 6 (store5\<lparr>db_user_progress := [progress5_first64]\<rparr>) user1 id5
     fractions_question False = Inr (store5\<lparr>db_user_progress := [progress5_second64]\<rparr>) \<and>
   py_iter (dict_get fractions_question ''skills'' (PList [])) = Inr [SStr ''fractions''] \<and>
   distinct [SStr ''fractions''] \<and>
   SStr ''fractions'' \<in> set [SStr ''fractions''] \<and>
   map_of (skills (load_progress 6 (store5\<lparr>db_user_progress := [progress5_first64]\<rparr>) user1))
       ''fractions''
     = Some \<lparr>mastery_level = 5629499534213119 / 562949953421312, attempts = 1, correct = 1\<rparr> \<and>
   map_of (skills progress5_second64) ''fractions''
     = Some \<lparr>mastery_level = 3940649673949183 / 281474976710656, attempts = 2, correct = 1\<rparr> \<and>
   (\<exists>u p' st'. ObjectId user1 = Inr u \<and>
      find_progress (db_user_progress (store5\<lparr>db_user_progress := [progress5_second64]\<rparr>)) u
        = Some p' \<and>
      map_of (skills p') ''fractions'' = Some st' \<and>
      (case map_of (skills (load_progress 6 (store5\<lparr>db_user_progress := [progress5_first64]\<rparr>) u))
              ''fractions'' of
         None \<Rightarrow>
           attempts st' = 1 \<and> correct st' = (if False then 1 else 0) \<and>
           mastery_level st' =
             binary64 (binary64 (0 * binary64 (9 / 10))
                  + binary64 (binary64 (binary64 (of_int (correct st') / of_int 1) * 100)
                         * binary64 (1 - binary64 (9 / 10))))
       | Some st \<Rightarrow>
           attempts st' = attempts st + 1 \<and>
           correct st' = (if False then correct st + 1 else correct st) \<and>
           mastery_level st' =
             (if 0 < attempts st' then
                binary64 (binary64 (mastery_level st * binary64 (9 / 10))
                     + binary64 (binary64 (binary64 (of_int (correct st') / of_int (attempts st')) * 100)
                            * binary64 (1 - binary64 (9 / 10))))
              else mastery_level st)))"
proof -
  have h: "update_user_progress binary64 6 (store5\<lparr>db_user_progress := [progress5_first64]\<rparr>)
             user1 id5 fractions_question False
           = Inr (store5\<lparr>db_user_progress := [progress5_second64]\<rparr>)"
    by code_simp
  have t: "py_iter (dict_get fractions_question ''skills'' (PList [])) = Inr [SStr ''fractions'']"
    by code_simp
  have d: "distinct [SStr ''fractions'']" by simp
  have k: "SStr ''fractions'' \<in> set [SStr ''fractions'']" by simp
  have a: "map_of (skills (load_progress 6 (store5\<lparr>db_user_progress := [progress5_first64]\<rparr>) user1))
       ''fractions''
     = Some \<lparr>mastery_level = 5629499534213119 / 562949953421312, attempts = 1, correct = 1\<rparr>"
    by code_simp
  have b: "map_of (skills progress5_second64) ''fractions''
     = Some \<lparr>mastery_level = 3940649673949183 / 281474976710656, attempts = 2, correct = 1\<rparr>"
    by (simp add: progress5_second64_def)
  from h t d k a b update_user_progress_mastery[OF h t d k] show ?thesis by (intro conjI)
qed

text \<open>
  C5, as the claim states it, fails in the arithmetic of the code. A user without a
  progress document answers the fractions question correctly. The code stores the
  mastery level \<^verbatim>\<open>9.999999999999998\<close>, since \<^verbatim>\<open>1 - 0.9\<close> is the float
  \<^verbatim>\<open>0.09999999999999998\<close>; the formula of the claim,
  \<^verbatim>\<open>0 * 0.9 + (100 * 1 / 1) * 0.1\<close>, is 10, in binary64 as in exact arithmetic.
\<close>

theorem mastery_formula_counterexample:
  "update_user_progress binary64 5 store5 user1 id5 fractions_question True
     = Inr (store5\<lparr>db_user_progress := [progress5_first64]\<rparr>) \<and>
   map_of (skills progress5_first64) ''fractions''
     = Some \<lparr>mastery_level = 5629499534213119 / 562949953421312, attempts = 1, correct = 1\<rparr> \<and>
   binary64 (binary64 (0 * binary64 (9 / 10))
             + binary64 (binary64 (of_int (100 * 1) / of_int 1) * binary64 (1 / 10))) = 10 \<and>
   (0::rat) * (9 / 10) + (100 * of_int 1 / of_int 1) * (1 / 10) = 10 \<and>
   (5629499534213119 / 562949953421312 :: rat) \<noteq> 10"
proof -
  have "update_user_progress binary64 5 store5 user1 id5 fractions_question True
     = Inr (store5\<lparr>db_user_progress := [progress5_first64]\<rparr>)"
    by code_simp
  moreover have "map_of (skills progress5_first64) ''fractions''
     = Some \<lparr>mastery_level = 5629499534213119 / 562949953421312, attempts = 1, correct = 1\<rparr>"
    by (simp add: progress5_first64_def)
  moreover have "binary64 (binary64 (0 * binary64 (9 / 10))
             + binary64 (binary64 (of_int (100 * 1) / of_int 1) * binary64 (1 / 10))) = 10"
    by code_simp
  moreover have "(0::rat) * (9 / 10) + (100 * of_int 1 / of_int 1) * (1 / 10) = 10"
    by simp
  moreover have "(5629499534213119 / 562949953421312 :: rat) \<noteq> 10"
    by simp
  ultimately show ?thesis by (intro conjI)
qed

subsection \<open>The invariant\<close>

lemma new_mastery_bounds:
  assumes r: "rounding rnd" and old: "0 \<le> old" "old \<le> 100"
    and c: "0 \<le> c" "c \<le> a" and a: "0 < a"
  shows "0 \<le> new_mastery rnd old c a \<and> new_mastery rnd old c a \<le> 100"
proof -
  have m: "\<And>x y. x \<le> y \<Longrightarrow> rnd x \<le> rnd y"
    using r by (auto simp: rounding_def mono_def)
  have r0: "rnd 0 = 0" and r1: "rnd 1 = 1" and r100: "rnd 100 = 100"
    and d0: "0 \<le> rnd (9 / 10)" and d1: "rnd (9 / 10) \<le> 1"
    and top: "rnd (rnd (100 * rnd (9 / 10)) + rnd (100 * rnd (1 - rnd (9 / 10)))) \<le> 100"
    using r by (auto simp: rounding_def)
  define q where "q = rnd (of_int c / of_int a)"
  define mastery where "mastery = rnd (q * 100)"
  define w where "w = rnd (1 - rnd (9 / 10))"
  have "(0::rat) \<le> of_int c / of_int a" using c a by simp
  then have q0: "0 \<le> q" unfolding q_def using m[of 0] r0 by simp
  have "of_int c / of_int a \<le> (1::rat)" using c a by simp
  then have q1: "q \<le> 1" unfolding q_def using m[of _ 1] r1 by simp
  have m0: "0 \<le> mastery" unfolding mastery_def using m[of 0 "q * 100"] r0 q0 by simp
  have m100: "mastery \<le> 100" unfolding mastery_def using m[of "q * 100" 100] r100 q1 by simp
  have w0: "0 \<le> w" unfolding w_def using m[of 0 "1 - rnd (9 / 10)"] r0 d1 by simp
  have a0: "0 \<le> rnd (old * rnd (9 / 10))"
    using m[of 0 "old * rnd (9 / 10)"] r0 old d0 by simp
  have b0: "0 \<le> rnd (mastery * w)" using m[of 0 "mastery * w"] r0 m0 w0 by simp
  have a1: "rnd (old * rnd (9 / 10)) \<le> rnd (100 * rnd (9 / 10))"
    by (rule m) (use old d0 in \<open>simp add: mult_right_mono\<close>)
  have b1: "rnd (mastery * w) \<le> rnd (100 * w)"
    by (rule m) (use m100 w0 in \<open>simp add: mult_right_mono\<close>)
  have lo: "0 \<le> rnd (rnd (old * rnd (9 / 10)) + rnd (mastery * w))"
    using m[of 0 "rnd (old * rnd (9 / 10)) + rnd (mastery * w)"] r0 a0 b0 by simp
  have "rnd (rnd (old * rnd (9 / 10)) + rnd (mastery * w))
          \<le> rnd (rnd (100 * rnd (9 / 10)) + rnd (100 * w))"
    by (rule m) (use a1 b1 in simp)
  then have hi: "rnd (rnd (old * rnd (9 / 10)) + rnd (mastery * w)) \<le> 100"
    using top unfolding w_def by simp
  show ?thesis
    using lo hi unfolding new_mastery_def Let_def mastery_def q_def w_def by simp
qed

lemma set_update_cases:
  "(k', s) \<in> set (AList.update k v al) \<Longrightarrow> (k', s) \<in> set al \<or> (k' = k \<and> s = v)"
  by (induction al) (auto split: if_splits)

lemma update_skill_ok:
  assumes r: "rounding rnd" and sk: "list_all (\<lambda>kv. stat_ok (snd kv)) sk"
  shows "list_all (\<lambda>kv. stat_ok (snd kv)) (update_skill rnd ok k sk)"
proof -
  define st where "st = skill_entry sk k"
  have st: "stat_ok st"
  proof (cases "map_of sk k")
    case None
    then show ?thesis by (simp add: st_def skill_entry_def stat_ok_def)
  next
    case (Some s)
    then have "(k, s) \<in> set sk" by (rule map_of_SomeD)
    with sk show ?thesis using Some by (auto simp: st_def skill_entry_def list_all_iff)
  qed
  define c where "c = (if ok then correct st + 1 else correct st)"
  have c: "0 \<le> c" "c \<le> attempts st + 1" "0 < attempts st + 1"
    using st by (auto simp: c_def stat_ok_def)
  have new: "stat_ok \<lparr>mastery_level = new_mastery rnd (mastery_level st) c (attempts st + 1),
            attempts = attempts st + 1, correct = c\<rparr>"
    using new_mastery_bounds[OF r _ _ c] st c by (simp add: stat_ok_def)
  have eq: "update_skill rnd ok k sk =
      AList.update k \<lparr>mastery_level = new_mastery rnd (mastery_level st) c (attempts st + 1),
            attempts = attempts st + 1, correct = c\<rparr> sk"
    using c by (simp add: update_skill_def Let_def st_def c_def)
  show ?thesis
    unfolding eq list_all_iff using new sk
    by (auto simp: list_all_iff dest!: set_update_cases)
qed

lemma fold_update_skill_ok:
  "rounding rnd \<Longrightarrow> list_all (\<lambda>kv. stat_ok (snd kv)) sk \<Longrightarrow>
     list_all (\<lambda>kv. stat_ok (snd kv)) (fold (update_skill rnd ok) names sk)"
  by (induction names arbitrary: sk) (auto simp: update_skill_ok)

lemma set_upsert: "set (upsert_progress ps u p) \<subseteq> insert p (set ps)"
  by (induction ps) auto

lemma load_progress_ok:
  "list_all progress_ok (db_user_progress d) \<Longrightarrow> progress_ok (load_progress now d u)"
  by (auto simp: load_progress_def find_progress_def find_Some_iff new_progress_def
      progress_ok_def list_all_iff split: option.splits)

lemma update_user_progress_ok:
  assumes r: "rounding rnd" and inv: "list_all progress_ok (db_user_progress d)"
    and u: "update_user_progress rnd now d uid question_id question ok = Inr d'"
  shows "list_all progress_ok (db_user_progress d')"
proof -
  define pn where "pn user names =
         (let p0 = load_progress now d user;
               p1 = p0\<lparr>total_attempts := total_attempts p0 + 1\<rparr>;
               p2 = (if question_id \<notin> set (attempted_questions p1)
                     then p1\<lparr>attempted_questions := attempted_questions p1 @ [question_id]\<rparr>
                     else p1);
               p3 = (if ok then
                       (let p = p2\<lparr>correct_answers := correct_answers p2 + 1\<rparr>
                        in if question_id \<notin> set (completed_questions p)
                           then p\<lparr>completed_questions := completed_questions p @ [question_id]\<rparr>
                           else p)
                     else p2)
          in p3\<lparr>skills := fold (update_skill rnd ok) names (skills p3), updated_at := now\<rparr>)"
    for user names
  from u obtain user names where d': "d' = d\<lparr>db_user_progress :=
       upsert_progress (db_user_progress d) user (pn user names)\<rparr>"
    by (auto simp: update_user_progress_def Let_def pn_def split: sum.splits option.splits)
  have l: "progress_ok (load_progress now d user)" using inv by (rule load_progress_ok)
  then have sk: "list_all (\<lambda>kv. stat_ok (snd kv)) (skills (load_progress now d user))"
    by (simp add: progress_ok_def)
  have "progress_ok (pn user names)"
    using l fold_update_skill_ok[OF r sk, of ok names]
    by (auto simp: pn_def Let_def progress_ok_def)
  then show ?thesis
    unfolding d' using inv set_upsert[of "db_user_progress d" user "pn user names"]
    by (auto simp: list_all_iff)
qed

lemma run_submissions_ok:
  "rounding rnd \<Longrightarrow> list_all progress_ok (db_user_progress d) \<Longrightarrow>
     list_all progress_ok (db_user_progress (run_submissions rnd d subs))"
proof (induction subs arbitrary: d)
  case Nil
  then show ?case by simp
next
  case (Cons s ss)
  show ?case
  proof (cases "update_user_progress rnd (sub_now s) d (sub_user s) (sub_question_id s)
               (sub_question s) (sub_correct s)")
    case (Inl e)
    then show ?thesis using Cons by simp
  next
    case (Inr d')
    then have "list_all progress_ok (db_user_progress d')"
      using update_user_progress_ok[OF Cons.prems(1,2)] by blast
    then show ?thesis using Cons.IH[OF Cons.prems(1)] Inr by simp
  qed
qed

lemma initial_ok: "initial p \<Longrightarrow> progress_ok p"
proof -
  assume "initial p"
  then have "p = new_progress (user_id p) (created_at p)" by (simp add: initial_def)
  then have "completed_questions p = []" and "correct_answers p = 0"
    and "total_attempts p = 0" and "skills p = []"
    by (metis new_progress_def progress.select_convs)+
  then show ?thesis by (simp add: progress_ok_def)
qed

lemma progress_ok_inv: "progress_ok p \<Longrightarrow> progress_inv p"
  by (auto simp: progress_ok_def progress_inv_def stat_ok_def list_all_iff)

text \<open>
  C6. From a store in which every progress document is the initial one (or there is
  none), after any finite sequence of calls of \<^verbatim>\<open>update_user_progress\<close>, for any users,
  questions, skill lists and correctness flags, every progress document of the store
  has its completed questions among its attempted ones, no more correct answers than
  attempts, and every mastery level between 0 and 100. The rounding function is any
  function with the listed properties of rounding to nearest.
\<close>

theorem progress_invariants:
  assumes "rounding rnd" and "list_all initial (db_user_progress d)"
  shows "list_all progress_inv (db_user_progress (run_submissions rnd d subs))"
proof -
  have "list_all progress_ok (db_user_progress d)"
    using assms(2) initial_ok by (auto simp: list_all_iff)
  then have "list_all progress_ok (db_user_progress (run_submissions rnd d subs))"
    using assms(1) by (intro run_submissions_ok)
  then show ?thesis
    using progress_ok_inv by (auto simp: list_all_iff)
qed

theorem progress_invariants_witness:
  "rounding (\<lambda>x. x) \<and> list_all initial (db_user_progress store5) \<and>
   db_user_progress
     (run_submissions (\<lambda>x. x) store5
        [\<lparr>sub_now = 5, sub_user = user1, sub_question_id = id5,
          sub_question = fractions_question, sub_correct = True\<rparr>,
         \<lparr>sub_now = 6, sub_user = user1, sub_question_id = id5,
          sub_question = fractions_question, sub_correct = False\<rparr>]) = [progress5_second] \<and>
   list_all progress_inv
     (db_user_progress
        (run_submissions (\<lambda>x. x) store5
           [\<lparr>sub_now = 5, sub_user = user1, sub_question_id = id5,
             sub_question = fractions_question, sub_correct = True\<rparr>,
            \<lparr>sub_now = 6, sub_user = user1, sub_question_id = id5,
             sub_question = fractions_question, sub_correct = False\<rparr>]))"
proof -
  have r: "rounding (\<lambda>x. x)" by (simp add: rounding_def mono_def)
  have i: "list_all initial (db_user_progress store5)"
    by (simp add: store5_def fresh_store_def)
  have e: "db_user_progress
     (run_submissions (\<lambda>x. x) store5
        [\<lparr>sub_now = 5, sub_user = user1, sub_question_id = id5,
          sub_question = fractions_question, sub_correct = True\<rparr>,
         \<lparr>sub_now = 6, sub_user = user1, sub_question_id = id5,
          sub_question = fractions_question, sub_correct = False\<rparr>]) = [progress5_second]"
    by code_simp
  from r i e progress_invariants[OF r i] show ?thesis by (intro conjI)
qed

section \<open>The recommendation engine\<close>

text \<open>
  C1, at an input where the code breaks it. The catalog holds an algebra question of
  difficulty medium, a geometry question of difficulty easy and an algebra question of
  difficulty hard. The user answers the medium algebra question correctly. The store
  compares the strings, and \<^verbatim>\<open>"hard"\<close> is not greater than \<^verbatim>\<open>"medium"\<close>: the query for
  a harder algebra question finds nothing, and the fallback returns the geometry
  question, although the hard algebra question is there and not completed.
\<close>

theorem recommend_misses_harder_question:
  "snd (save_user_answer rnd 5 store1 user1 id1 (str_val ''B'') 0) = Inr correct_result \<and>
   snd (recommend_next_question 6
          (fst (save_user_answer rnd 5 store1 user1 id1 (str_val ''B'') 0)) user1 id1
          correct_result) = Inr (Some id2) \<and>
   get_question_by_id store1 id2 = Some geometry_easy \<and>
   get_question_by_id store1 id3 = Some algebra_hard \<and>
   completed_questions
     (load_progress 6 (fst (save_user_answer rnd 5 store1 user1 id1 (str_val ''B'') 0)) user1)
     = [id1]"
  by code_simp

text \<open>
  C10. A state reached by two answers: the user answers the easy algebra question
  correctly and then the medium algebra question incorrectly. The recommendation after
  the incorrect answer is the easy algebra question, which is among the user's
  completed questions.
\<close>

theorem recommend_returns_completed_question:
  "\<exists>catalog requests now uid cur answer d res nxt u p.
     save_user_answer rnd now (submit_all rnd (fresh_store catalog) requests) uid cur answer 0
       = (d, Inr res) \<and>
     \<not> is_correct res \<and>
     snd (recommend_next_question now d uid cur res) = Inr (Some nxt) \<and>
     ObjectId uid = Inr u \<and>
     find_progress (db_user_progress d) u = Some p \<and>
     nxt \<in> set (completed_questions p)"
proof -
  define requests where
    "requests = [\<lparr>req_now = 5, req_user = user1, req_question_id = id4, req_answer = str_val ''B''\<rparr>]"
  define d where
    "d = fst (save_user_answer rnd 6 (submit_all rnd (fresh_store [algebra_medium, algebra_easy]) requests)
               user1 id1 (str_val ''A'') 0)"
  define res where
    "res = \<lparr>is_correct = False, feedback = str_val ''Incorrect choice.'', score = PS (SInt 0)\<rparr>"
  define p where
    "p = \<lparr>user_id = user1, completed_questions = [id4], attempted_questions = [id4, id1],
          correct_answers = 1, total_attempts = 2, skills = [],
          created_at = 5, updated_at = 6\<rparr>"
  have "save_user_answer rnd 6 (submit_all rnd (fresh_store [algebra_medium, algebra_easy]) requests)
          user1 id1 (str_val ''A'') 0 = (d, Inr res)"
    unfolding d_def res_def requests_def by code_simp
  moreover have "\<not> is_correct res" by (simp add: res_def)
  moreover have "snd (recommend_next_question 6 d user1 id1 res) = Inr (Some id4)"
    unfolding d_def res_def requests_def by code_simp
  moreover have "ObjectId user1 = Inr user1" by code_simp
  moreover have "find_progress (db_user_progress d) user1 = Some p"
    unfolding d_def p_def requests_def by code_simp
  moreover have "id4 \<in> set (completed_questions p)" by (simp add: p_def)
  ultimately show ?thesis by blast
qed

end
